theory Spec2Isabelle
  imports Complex_Main "HOL-Library.Multiset" "HOL-Library.Char_ord" "HOL-Library.List_Lexorder"
    "HOL-Library.Code_Target_Nat"
begin

text \<open>
  The install-size comparison of npmx: \<^verbatim>\<open>getComparisonVersion\<close> and the composable
  \<^verbatim>\<open>useInstallSizeDiff\<close> (which version a package version is compared with, and the diff
  of the two install sizes), and the server's \<^verbatim>\<open>calculateInstallSize\<close>. The definitions
  come first, the properties after them.
\<close>

section \<open>The semver package\<close>

text \<open>
  The composable imports \<^verbatim>\<open>compare\<close>, \<^verbatim>\<open>prerelease\<close> and \<^verbatim>\<open>valid\<close> from the npm package
  \<^verbatim>\<open>semver\<close>, an external dependency. All three go through the \<^verbatim>\<open>SemVer\<close> constructor,
  which matches the string against the package's strict pattern and throws a TypeError
  when it does not match. The string parser is a parameter \<open>parse\<close> of every definition
  below (\<open>None\<close> where the constructor throws); what the package does with parsed
  versions is written out after its \<^verbatim>\<open>classes/semver.js\<close> and \<^verbatim>\<open>internal/identifiers.js\<close>.
\<close>

datatype error = TypeError

datatype ident = NumId nat | StrId string

record SemVer =
  major :: nat
  minor :: nat
  patch :: nat
  pre :: "ident list"
  build :: "string list"

type_synonym parser = "string \<Rightarrow> SemVer option"

definition is_digit :: "char \<Rightarrow> bool" where
  "is_digit c = (c \<in> set ''0123456789'')"

definition digit_val :: "char \<Rightarrow> nat" where
  "digit_val c = of_char c - 48"

definition digits_value :: "string \<Rightarrow> nat" where
  "digits_value s = foldl (\<lambda>n c. 10 * n + digit_val c) 0 s"

text \<open>\<^verbatim>\<open>/^[0-9]+$/.test(a)\<close>: a number always passes (it prints as digits).\<close>

fun numeric_test :: "ident \<Rightarrow> bool" where
  "numeric_test (NumId n) = True"
| "numeric_test (StrId s) = (s \<noteq> [] \<and> list_all is_digit s)"

text \<open>
  \<^verbatim>\<open>+a\<close>. The package converts to a double; the model keeps the exact value, so digit
  strings from \<open>2^53\<close> on are compared exactly here and rounded there.
\<close>

fun to_number :: "ident \<Rightarrow> nat" where
  "to_number (NumId n) = n"
| "to_number (StrId s) = digits_value s"

fun id_string :: "ident \<Rightarrow> string" where
  "id_string (StrId s) = s"
| "id_string (NumId n) = []"

text \<open>
  \<^verbatim>\<open>compareIdentifiers\<close>: two numeric identifiers by value, a numeric one below a
  non-numeric one, two non-numeric ones as JavaScript strings (by code unit).
\<close>

definition compareIdentifiers :: "ident \<Rightarrow> ident \<Rightarrow> int" where
  "compareIdentifiers a b =
     (let anum = numeric_test a; bnum = numeric_test b in
      if anum \<and> bnum then
        (if to_number a = to_number b then 0
         else if to_number a < to_number b then - 1 else 1)
      else if a = b then 0
      else if anum \<and> \<not> bnum then - 1
      else if bnum \<and> \<not> anum then 1
      else if id_string a < id_string b then - 1
      else 1)"

text \<open>\<^verbatim>\<open>compareMain\<close>: \<^verbatim>\<open>x || y || z\<close> takes the first non-zero comparison.\<close>

definition compareMain :: "SemVer \<Rightarrow> SemVer \<Rightarrow> int" where
  "compareMain this other =
     (let c1 = compareIdentifiers (NumId (major this)) (NumId (major other)) in
      if c1 \<noteq> 0 then c1
      else
        (let c2 = compareIdentifiers (NumId (minor this)) (NumId (minor other)) in
         if c2 \<noteq> 0 then c2
         else compareIdentifiers (NumId (patch this)) (NumId (patch other))))"

text \<open>The \<^verbatim>\<open>do ... while (++i)\<close> loop of \<^verbatim>\<open>comparePre\<close>, over the two identifier lists.\<close>

fun comparePre_loop :: "ident list \<Rightarrow> ident list \<Rightarrow> int" where
  "comparePre_loop [] [] = 0"
| "comparePre_loop (a # as) [] = 1"
| "comparePre_loop [] (b # bs) = - 1"
| "comparePre_loop (a # as) (b # bs) =
     (if a = b then comparePre_loop as bs else compareIdentifiers a b)"

definition comparePre :: "SemVer \<Rightarrow> SemVer \<Rightarrow> int" where
  "comparePre this other =
     (if pre this \<noteq> [] \<and> pre other = [] then - 1
      else if pre this = [] \<and> pre other \<noteq> [] then 1
      else if pre this = [] \<and> pre other = [] then 0
      else comparePre_loop (pre this) (pre other))"

text \<open>
  \<^verbatim>\<open>SemVer.compare\<close>: \<^verbatim>\<open>this.compareMain(other) || this.comparePre(other)\<close>. The method
  first returns 0 when both versions print alike, which is the value the two
  comparisons give on such versions.
\<close>

definition SemVer_compare :: "SemVer \<Rightarrow> SemVer \<Rightarrow> int" where
  "SemVer_compare this other =
     (let m = compareMain this other in if m \<noteq> 0 then m else comparePre this other)"

text \<open>
  \<^verbatim>\<open>compare(a, b) = new SemVer(a).compare(new SemVer(b))\<close>: throws when either string is
  not a version.
\<close>

definition compare :: "parser \<Rightarrow> string \<Rightarrow> string \<Rightarrow> error + int" where
  "compare parse a b =
     (case parse a of
        None \<Rightarrow> Inl TypeError
      | Some x \<Rightarrow>
          (case parse b of
             None \<Rightarrow> Inl TypeError
           | Some y \<Rightarrow> Inr (SemVer_compare x y)))"

text \<open>
  \<^verbatim>\<open>prerelease(v)\<close>: the prerelease identifiers of a version that has some, else null
  (also for a string that is not a version: \<^verbatim>\<open>parse\<close> catches the constructor's error).
\<close>

definition prerelease :: "parser \<Rightarrow> string \<Rightarrow> ident list option" where
  "prerelease parse v =
     (case parse v of
        None \<Rightarrow> None
      | Some parsed \<Rightarrow> if pre parsed \<noteq> [] then Some (pre parsed) else None)"

text \<open>
  \<^verbatim>\<open>valid(v)\<close> returns the normalised version string or null. The composable only tests
  the result against null, and the model keeps that test.
\<close>

definition valid :: "parser \<Rightarrow> string \<Rightarrow> bool" where
  "valid parse v = (parse v \<noteq> None)"

subsection \<open>A parser for the strict pattern\<close>

text \<open>
  An executable parser for the package's \<^verbatim>\<open>FULL\<close> pattern
  \<^verbatim>\<open>^v?MAIN(-PRERELEASE)?(+BUILD)?$\<close>, applied to the trimmed string, with the
  constructor's length and magnitude checks. The theorems below hold for every parser;
  this one evaluates them on concrete packuments.
\<close>

definition MAX_LENGTH :: nat where
  "MAX_LENGTH = 256"

definition MAX_SAFE_INTEGER :: nat where
  "MAX_SAFE_INTEGER = 9007199254740991"

text \<open>
  The white space that \<^verbatim>\<open>String.prototype.trim\<close> strips. A string is a list of code
  units below 256 here, and the white space in that range is tab, line feed, vertical
  tab, form feed, carriage return, space and the no-break space U+00A0.
\<close>

definition is_space :: "char \<Rightarrow> bool" where
  "is_space c =
     (c \<in> set [CHR '' '', CHR 0x09, CHR 0x0A, CHR 0x0B, CHR 0x0C, CHR 0x0D, CHR 0xA0])"

definition trim :: "string \<Rightarrow> string" where
  "trim s = rev (dropWhile is_space (rev (dropWhile is_space s)))"

definition is_letterdashnumber :: "char \<Rightarrow> bool" where
  "is_letterdashnumber c =
     (is_digit c \<or> c = CHR ''-''
      \<or> c \<in> set ''abcdefghijklmnopqrstuvwxyz''
      \<or> c \<in> set ''ABCDEFGHIJKLMNOPQRSTUVWXYZ'')"

text \<open>\<^verbatim>\<open>0|[1-9]\d*\<close>\<close>

definition is_numeric_identifier :: "string \<Rightarrow> bool" where
  "is_numeric_identifier s =
     (s = ''0'' \<or> (s \<noteq> [] \<and> hd s \<noteq> CHR ''0'' \<and> list_all is_digit s))"

text \<open>\<^verbatim>\<open>\d*[a-zA-Z-][a-zA-Z0-9-]*\<close>: identifier characters, not all of them digits.\<close>

definition is_nonnumeric_identifier :: "string \<Rightarrow> bool" where
  "is_nonnumeric_identifier s =
     (list_all is_letterdashnumber s \<and> \<not> list_all is_digit s)"

text \<open>\<^verbatim>\<open>s.split(c)\<close>\<close>

fun split_on :: "char \<Rightarrow> string \<Rightarrow> string list" where
  "split_on c [] = [[]]"
| "split_on c (x # xs) =
     (if x = c then [] # split_on c xs
      else (case split_on c xs of
              [] \<Rightarrow> [[x]]
            | w # ws \<Rightarrow> (x # w) # ws))"

text \<open>The part of a string before the first \<open>c\<close>, and the part after it when there is one.\<close>

definition cut_at :: "char \<Rightarrow> string \<Rightarrow> string \<times> string option" where
  "cut_at c s =
     (let a = takeWhile (\<lambda>x. x \<noteq> c) s; r = dropWhile (\<lambda>x. x \<noteq> c) s in
      (a, if r = [] then None else Some (tl r)))"

text \<open>A prerelease identifier of digits below \<^verbatim>\<open>MAX_SAFE_INTEGER\<close> becomes a number.\<close>

definition numberify :: "string \<Rightarrow> ident" where
  "numberify i =
     (if i \<noteq> [] \<and> list_all is_digit i \<and> digits_value i < MAX_SAFE_INTEGER
      then NumId (digits_value i) else StrId i)"

definition semver_parse :: parser where
  "semver_parse version =
     (if length version > MAX_LENGTH then None
      else
        (let t = trim version;
             t = (case t of c # r \<Rightarrow> if c = CHR ''v'' then r else t | [] \<Rightarrow> t);
             (mp, b) = cut_at CHR ''+'' t;
             (m, p) = cut_at CHR ''-'' mp;
             bs = (case b of None \<Rightarrow> [] | Some x \<Rightarrow> split_on CHR ''.'' x);
             ps = (case p of None \<Rightarrow> [] | Some x \<Rightarrow> split_on CHR ''.'' x);
             ms = split_on CHR ''.'' m
         in if length ms = 3 \<and> list_all is_numeric_identifier ms
               \<and> list_all (\<lambda>n. digits_value n \<le> MAX_SAFE_INTEGER) ms
               \<and> list_all (\<lambda>i. is_nonnumeric_identifier i \<or> is_numeric_identifier i) ps
               \<and> list_all (\<lambda>i. i \<noteq> [] \<and> list_all is_letterdashnumber i) bs
            then Some \<lparr>major = digits_value (ms ! 0), minor = digits_value (ms ! 1),
                       patch = digits_value (ms ! 2), pre = map numberify ps, build = bs\<rparr>
            else None))"

section \<open>JavaScript built-ins used by the composable\<close>

text \<open>
  \<^verbatim>\<open>Array.prototype.sort(comparefn)\<close> is stable, and with a consistent comparator the result
  is the one stable sorted arrangement, whatever algorithm the engine runs. The model is
  insertion sort. An exception thrown by the comparator leaves the sort, so the
  comparator returns \<open>error + int\<close> and the first error is the result.
\<close>

fun insort_cmp :: "('a \<Rightarrow> 'a \<Rightarrow> error + int) \<Rightarrow> 'a \<Rightarrow> 'a list \<Rightarrow> error + 'a list" where
  "insort_cmp cmp x [] = Inr [x]"
| "insort_cmp cmp x (y # ys) =
     (case cmp x y of
        Inl e \<Rightarrow> Inl e
      | Inr c \<Rightarrow>
          if c \<le> 0 then Inr (x # y # ys)
          else (case insort_cmp cmp x ys of
                  Inl e \<Rightarrow> Inl e
                | Inr zs \<Rightarrow> Inr (y # zs)))"

fun sort_cmp :: "('a \<Rightarrow> 'a \<Rightarrow> error + int) \<Rightarrow> 'a list \<Rightarrow> error + 'a list" where
  "sort_cmp cmp [] = Inr []"
| "sort_cmp cmp (x # xs) =
     (case sort_cmp cmp xs of
        Inl e \<Rightarrow> Inl e
      | Inr ys \<Rightarrow> insort_cmp cmp x ys)"

text \<open>\<^verbatim>\<open>Array.prototype.indexOf\<close>: the first index of the element, or \<open>-1\<close>.\<close>

fun indexOf :: "'a list \<Rightarrow> 'a \<Rightarrow> int" where
  "indexOf [] v = - 1"
| "indexOf (x # xs) v =
     (if x = v then 0
      else (let i = indexOf xs v in if i < 0 then - 1 else i + 1))"

text \<open>
  \<^verbatim>\<open>Object.keys(o)\<close>: the keys of an object in enumeration order; a TypeError on
  \<^verbatim>\<open>undefined\<close> or \<^verbatim>\<open>null\<close>. An object is an association list in enumeration order.
\<close>

definition Object_keys :: "('k \<times> 'v) list option \<Rightarrow> error + 'k list" where
  "Object_keys obj = (case obj of None \<Rightarrow> Inl TypeError | Some kvs \<Rightarrow> Inr (map fst kvs))"

section \<open>Comparison-version selection\<close>

text \<open>
  The fields of \<^verbatim>\<open>SlimPackument\<close> that \<^verbatim>\<open>getComparisonVersion\<close> reads. \<open>None\<close> is a field
  that is \<^verbatim>\<open>undefined\<close> at run time: the function guards \<^verbatim>\<open>pkg['dist-tags']\<close> with
  \<^verbatim>\<open>?.\<close> and reads \<^verbatim>\<open>pkg.time\<close> unguarded.
\<close>

record SlimPackument =
  dist_tags :: "(string \<times> string) list option"
  time :: "(string \<times> string) list option"

text \<open>\<^verbatim>\<open>pkg['dist-tags']?.latest\<close>\<close>

definition latest_tag :: "SlimPackument \<Rightarrow> string option" where
  "latest_tag pkg = (case dist_tags pkg of None \<Rightarrow> None | Some dt \<Rightarrow> map_of dt ''latest'')"

text \<open>The predicate of the \<^verbatim>\<open>filter\<close> call.\<close>

definition is_stable_key :: "parser \<Rightarrow> string \<Rightarrow> bool" where
  "is_stable_key parse v =
     (v \<noteq> ''modified'' \<and> v \<noteq> ''created'' \<and> valid parse v \<and> prerelease parse v = None)"

text \<open>\<^verbatim>\<open>Object.keys(pkg.time).filter(...).sort((a, b) => compare(a, b))\<close>\<close>

definition stableVersions :: "parser \<Rightarrow> SlimPackument \<Rightarrow> error + string list" where
  "stableVersions parse pkg =
     (case Object_keys (time pkg) of
        Inl e \<Rightarrow> Inl e
      | Inr ks \<Rightarrow> sort_cmp (compare parse) (filter (is_stable_key parse) ks))"

definition getComparisonVersion :: "parser \<Rightarrow> SlimPackument \<Rightarrow> string \<Rightarrow> error + string option" where
  "getComparisonVersion parse pkg resolvedVersion =
     (let isCurrentPrerelease = (prerelease parse resolvedVersion \<noteq> None) in
      if isCurrentPrerelease then
        (case latest_tag pkg of
           None \<Rightarrow> Inr None
         | Some latest \<Rightarrow>
             if latest = [] \<or> latest = resolvedVersion then Inr None
             else Inr (Some latest))
      else
        (case stableVersions parse pkg of
           Inl e \<Rightarrow> Inl e
         | Inr sorted_vs \<Rightarrow>
             (let currentIdx = indexOf sorted_vs resolvedVersion in
              if currentIdx \<le> 0 then Inr None
              else Inr (Some (sorted_vs ! nat (currentIdx - 1))))))"

text \<open>
  Semantic-version order on stable versions, stated on the numbers and not through
  \<^verbatim>\<open>compare\<close>: both strings are versions without prerelease identifiers, and \<open>a\<close> is not
  above \<open>b\<close> by major number, then by minor number, then by patch number.
\<close>

definition semver_lte :: "parser \<Rightarrow> string \<Rightarrow> string \<Rightarrow> bool" where
  "semver_lte parse a b =
     (case parse a of
        None \<Rightarrow> False
      | Some x \<Rightarrow>
          (case parse b of
             None \<Rightarrow> False
           | Some y \<Rightarrow>
               pre x = [] \<and> pre y = []
               \<and> (major x < major y
                   \<or> (major x = major y
                       \<and> (minor x < minor y
                           \<or> (minor x = minor y \<and> patch x \<le> patch y))))))"

subsection \<open>The packuments of the test suite\<close>

text \<open>
  \<^verbatim>\<open>{ ...a, ...b }\<close>: the keys of \<open>a\<close> in their order, with the values \<open>b\<close> gives them,
  then the keys only \<open>b\<close> has.
\<close>

definition object_spread :: "('k \<times> 'v) list \<Rightarrow> ('k \<times> 'v) list \<Rightarrow> ('k \<times> 'v) list" where
  "object_spread a b =
     map (\<lambda>(k, v). (k, case map_of b k of None \<Rightarrow> v | Some w \<Rightarrow> w)) a
     @ filter (\<lambda>(k, v). map_of a k = None) b"

text \<open>\<^verbatim>\<open>createPackage(name, time, distTags)\<close> of the test file.\<close>

definition createPackage :: "(string \<times> string) list \<Rightarrow> (string \<times> string) list \<Rightarrow> SlimPackument" where
  "createPackage tm distTags =
     \<lparr>dist_tags = Some (object_spread [(''latest'', ''1.0.0'')] distTags),
      time = Some (object_spread [(''created'', ''2020-01-01'')] tm)\<rparr>"

subsection \<open>Order of publication\<close>

text \<open>
  The values of the \<^verbatim>\<open>time\<close> map are ISO-8601 timestamps, which sort chronologically as
  strings. \<open>published_before tm a b\<close>: both versions have a timestamp and that of \<open>a\<close>
  is the earlier one.
\<close>

definition published_before :: "(string \<times> string) list \<Rightarrow> string \<Rightarrow> string \<Rightarrow> bool" where
  "published_before tm a b =
     (case map_of tm a of
        None \<Rightarrow> False
      | Some ta \<Rightarrow> (case map_of tm b of None \<Rightarrow> False | Some tb \<Rightarrow> ta < tb))"

text \<open>
  The reading "previous stable release by creation time": \<open>r\<close> is a stable version of the
  time map published before \<open>v\<close>, and no stable version published before \<open>v\<close> is later
  than \<open>r\<close>.
\<close>

definition previous_by_time :: "parser \<Rightarrow> (string \<times> string) list \<Rightarrow> string \<Rightarrow> string \<Rightarrow> bool" where
  "previous_by_time parse tm v r =
     (let ks = filter (is_stable_key parse) (map fst tm) in
      r \<in> set ks \<and> published_before tm r v
      \<and> list_all (\<lambda>k. \<not> (published_before tm k v \<and> published_before tm r k)) ks)"

text \<open>Stable versions are published in the order of their version numbers.\<close>

definition published_in_semver_order :: "parser \<Rightarrow> (string \<times> string) list \<Rightarrow> bool" where
  "published_in_semver_order parse tm =
     (let ks = filter (is_stable_key parse) (map fst tm) in
      list_all (\<lambda>a. list_all (\<lambda>b. a \<noteq> b \<and> semver_lte parse a b \<longrightarrow> published_before tm a b) ks) ks)"

section \<open>Install-size results\<close>

text \<open>
  \<^verbatim>\<open>DependencySize\<close> and \<^verbatim>\<open>InstallSizeResult\<close> of the shared types. Sizes are byte counts
  and \<^verbatim>\<open>dependencyCount\<close> counts loop iterations, so they are natural numbers. The
  optional field \<^verbatim>\<open>optional\<close> is \<open>None\<close> when it is \<^verbatim>\<open>undefined\<close>.
\<close>

record DependencySize =
  dep_name :: string
  dep_version :: string
  dep_size :: nat
  dep_optional :: "bool option"

record InstallSizeResult =
  package :: string
  version :: string
  selfSize :: nat
  totalSize :: nat
  dependencyCount :: nat
  dependencies :: "DependencySize list"

subsection \<open>calculateInstallSize\<close>







section \<open>useInstallSizeDiff\<close>

record InstallSizeDiff =
  comparisonVersion :: string
  sizeRatio :: real
  sizeIncrease :: int
  currentSize :: nat
  previousSize :: nat
  depDiff :: int
  currentDeps :: nat
  previousDeps :: nat
  sizeThresholdExceeded :: bool
  depThresholdExceeded :: bool

definition SIZE_INCREASE_THRESHOLD :: real where
  "SIZE_INCREASE_THRESHOLD = 0.25"

definition DEP_INCREASE_THRESHOLD :: int where
  "DEP_INCREASE_THRESHOLD = 5"

text \<open>
  The four reactive arguments of the composable at one moment. \<open>None\<close> is \<^verbatim>\<open>null\<close> or
  \<^verbatim>\<open>undefined\<close>.
\<close>

record inputs =
  packageName :: string
  resolvedVersion :: "string option"
  pkg :: "SlimPackument option"
  currentInstallSize :: "InstallSizeResult option"

text \<open>
  The computed \<^verbatim>\<open>comparisonVersion\<close>. \<^verbatim>\<open>!version\<close> holds for \<^verbatim>\<open>null\<close>, \<^verbatim>\<open>undefined\<close> and the
  empty string; an exception of \<^verbatim>\<open>getComparisonVersion\<close> leaves the getter.
\<close>

definition comparisonVersion_computed :: "parser \<Rightarrow> inputs \<Rightarrow> error + string option" where
  "comparisonVersion_computed parse i =
     (case pkg i of
        None \<Rightarrow> Inr None
      | Some pkgVal \<Rightarrow>
          (case resolvedVersion i of
             None \<Rightarrow> Inr None
           | Some v \<Rightarrow> if v = [] then Inr None else getComparisonVersion parse pkgVal v))"

text \<open>The two numbers of the diff, as the computed \<^verbatim>\<open>diff\<close> binds them.\<close>

definition sizeRatio_of :: "InstallSizeResult \<Rightarrow> InstallSizeResult \<Rightarrow> real" where
  "sizeRatio_of current previous =
     (if totalSize previous > 0
      then (real (totalSize current) - real (totalSize previous)) / real (totalSize previous)
      else 0)"

definition depDiff_of :: "InstallSizeResult \<Rightarrow> InstallSizeResult \<Rightarrow> int" where
  "depDiff_of current previous =
     int (dependencyCount current) - int (dependencyCount previous)"

text \<open>
  The body of the computed \<^verbatim>\<open>diff\<close> once its reactive sources are read: \<open>current\<close> is
  \<^verbatim>\<open>toValue(currentInstallSize)\<close>, \<open>previous\<close> is \<^verbatim>\<open>comparisonInstallSize.value\<close> (the data
  of the lazy fetch, \<^verbatim>\<open>null\<close> by default), \<open>cv\<close> is \<^verbatim>\<open>comparisonVersion.value\<close>.
\<close>

definition diff_value ::
  "string \<Rightarrow> string option \<Rightarrow> string option \<Rightarrow> InstallSizeResult option
     \<Rightarrow> InstallSizeResult option \<Rightarrow> InstallSizeDiff option" where
  "diff_value name resolved cv_opt current_opt previous_opt =
     (case current_opt of
        None \<Rightarrow> None
      | Some current \<Rightarrow>
     (case previous_opt of
        None \<Rightarrow> None
      | Some previous \<Rightarrow>
     (case cv_opt of
        None \<Rightarrow> None
      | Some cv \<Rightarrow>
          if cv = [] then None
          else if version previous \<noteq> cv \<or> package previous \<noteq> name then None
          else if Some (version current) \<noteq> resolved \<or> package current \<noteq> name then None
          else
            (let sizeRatio = sizeRatio_of current previous;
                 depDiff = depDiff_of current previous;
                 sizeThresholdExceeded = (sizeRatio > SIZE_INCREASE_THRESHOLD);
                 depThresholdExceeded = (depDiff > DEP_INCREASE_THRESHOLD)
             in if \<not> sizeThresholdExceeded \<and> \<not> depThresholdExceeded then None
                else Some \<lparr>comparisonVersion = cv,
                           sizeRatio = sizeRatio,
                           sizeIncrease = int (totalSize current) - int (totalSize previous),
                           currentSize = totalSize current,
                           previousSize = totalSize previous,
                           depDiff = depDiff,
                           currentDeps = dependencyCount current,
                           previousDeps = dependencyCount previous,
                           sizeThresholdExceeded = sizeThresholdExceeded,
                           depThresholdExceeded = depThresholdExceeded\<rparr>))))"

text \<open>
  The computed \<^verbatim>\<open>diff\<close>: it reads \<^verbatim>\<open>comparisonVersion.value\<close>, so an exception of that
  getter is its own.
\<close>

definition diff :: "parser \<Rightarrow> inputs \<Rightarrow> InstallSizeResult option \<Rightarrow> error + InstallSizeDiff option" where
  "diff parse i comparisonInstallSize =
     (case comparisonVersion_computed parse i of
        Inl e \<Rightarrow> Inl e
      | Inr cv \<Rightarrow>
          Inr (diff_value (packageName i) (resolvedVersion i) cv (currentInstallSize i)
                 comparisonInstallSize))"

subsection \<open>The fetch of the comparison size\<close>

text \<open>The URL getter handed to \<^verbatim>\<open>useLazyFetch\<close>.\<close>

definition fetch_url :: "string \<Rightarrow> string option \<Rightarrow> string" where
  "fetch_url name cv =
     (case cv of
        None \<Rightarrow> []
      | Some v \<Rightarrow> if v = [] then [] else ''/api/registry/install-size/'' @ name @ ''/v/'' @ v)"

text \<open>
  The callback of the watcher, \<^verbatim>\<open>([v]) => { if (v) fetchComparisonSize() }\<close>: the
  requests it issues.
\<close>

definition watch_callback :: "string \<Rightarrow> string option \<Rightarrow> string list" where
  "watch_callback name v =
     (case v of
        None \<Rightarrow> []
      | Some s \<Rightarrow> if s = [] then [] else [fetch_url name v])"

text \<open>
  One run of the watcher on \<^verbatim>\<open>[comparisonVersion, () => toValue(packageName)]\<close>: the
  callback runs when the watched pair differs from the pair last seen, and never when the
  getter of \<^verbatim>\<open>comparisonVersion\<close> throws. \<open>seen\<close> is \<open>None\<close> before the first run, which
  \<^verbatim>\<open>immediate: true\<close> makes at setup.
\<close>

definition watch_requests ::
  "((error + string option) \<times> string) option \<Rightarrow> (error + string option) \<times> string \<Rightarrow> string list" where
  "watch_requests seen source =
     (if seen = Some source then []
      else (case fst source of
              Inl e \<Rightarrow> []
            | Inr v \<Rightarrow> watch_callback (snd source) v))"

text \<open>The reactive URL of the lazy fetch: the getter reads \<^verbatim>\<open>comparisonVersion.value\<close>.\<close>

definition request_url :: "parser \<Rightarrow> inputs \<Rightarrow> error + string" where
  "request_url parse i =
     (case comparisonVersion_computed parse i of
        Inl e \<Rightarrow> Inl e
      | Inr cv \<Rightarrow> Inr (fetch_url (packageName i) cv))"

text \<open>
  \<^verbatim>\<open>useLazyFetch\<close> belongs to Nuxt, an external dependency. Given a URL getter it watches
  the URL and fetches again when the URL changes, whatever the new URL is; with
  \<^verbatim>\<open>immediate: false\<close> it issues no request at setup. \<open>last_url\<close> is \<open>None\<close> at setup.
\<close>

definition lazy_fetch_requests :: "(error + string) option \<Rightarrow> error + string \<Rightarrow> string list" where
  "lazy_fetch_requests last_url new_url =
     (case last_url of
        None \<Rightarrow> []
      | Some old \<Rightarrow>
          (case new_url of
             Inl e \<Rightarrow> []
           | Inr u \<Rightarrow> if old = Inr u then [] else [u]))"

text \<open>
  What the two watchers remember between two values of the reactive arguments.
\<close>

record fetch_state =
  seen_sources :: "((error + string option) \<times> string) option"
  seen_url :: "(error + string) option"

definition at_setup :: fetch_state where
  "at_setup = \<lparr>seen_sources = None, seen_url = None\<rparr>"

text \<open>
  The requests issued on the client when the reactive arguments take the value \<open>i\<close>:
  those of the lazy fetch's own watch and those of the composable's watcher.
\<close>

definition step_requests :: "parser \<Rightarrow> fetch_state \<Rightarrow> inputs \<Rightarrow> string list" where
  "step_requests parse st i =
     lazy_fetch_requests (seen_url st) (request_url parse i)
     @ watch_requests (seen_sources st) (comparisonVersion_computed parse i, packageName i)"

definition step_state :: "parser \<Rightarrow> inputs \<Rightarrow> fetch_state" where
  "step_state parse i =
     \<lparr>seen_sources = Some (comparisonVersion_computed parse i, packageName i),
      seen_url = Some (request_url parse i)\<rparr>"

fun run_requests :: "parser \<Rightarrow> fetch_state \<Rightarrow> inputs list \<Rightarrow> string list" where
  "run_requests parse st [] = []"
| "run_requests parse st (i # rest) =
     step_requests parse st i @ run_requests parse (step_state parse i) rest"

text \<open>
  The requests the composable issues over the successive values of its reactive
  arguments: none on the server (\<^verbatim>\<open>import.meta.client\<close> guards the watcher and the lazy
  fetch has \<^verbatim>\<open>server: false\<close>).
\<close>

definition fetches_issued :: "bool \<Rightarrow> parser \<Rightarrow> inputs list \<Rightarrow> string list" where
  "fetches_issued client parse history =
     (if client then run_requests parse at_setup history else [])"

subsection \<open>Fixtures of the test suite\<close>

text \<open>\<^verbatim>\<open>createInstallSize(name, { version, totalSize, dependencyCount })\<close>\<close>

definition createInstallSize :: "string \<Rightarrow> string \<Rightarrow> nat \<Rightarrow> nat \<Rightarrow> InstallSizeResult" where
  "createInstallSize name ver tsize dcount =
     \<lparr>package = name, version = ver, selfSize = 1000, totalSize = tsize,
      dependencyCount = dcount, dependencies = []\<rparr>"

section \<open>Properties of the sort and of indexOf\<close>

lemma insort_cmp_sorted:
  assumes cmp: "\<And>a b. a \<in> S \<Longrightarrow> b \<in> S \<Longrightarrow> cmp a b = Inr (f a b)"
    and total: "\<And>a b. a \<in> S \<Longrightarrow> b \<in> S \<Longrightarrow> 0 < f a b \<Longrightarrow> f b a \<le> 0"
    and trans: "\<And>a b c. a \<in> S \<Longrightarrow> b \<in> S \<Longrightarrow> c \<in> S \<Longrightarrow> f a b \<le> 0 \<Longrightarrow> f b c \<le> 0 \<Longrightarrow> f a c \<le> 0"
    and x: "x \<in> S"
  shows "set ys \<subseteq> S \<Longrightarrow> sorted_wrt (\<lambda>a b. f a b \<le> 0) ys \<Longrightarrow>
         \<exists>zs. insort_cmp cmp x ys = Inr zs \<and> mset zs = add_mset x (mset ys)
           \<and> sorted_wrt (\<lambda>a b. f a b \<le> 0) zs"
proof (induction ys)
  case Nil
  show ?case by simp
next
  case (Cons y ys)
  have y: "y \<in> S" and ys: "set ys \<subseteq> S" using Cons.prems(1) by auto
  have sy: "\<forall>z\<in>set ys. f y z \<le> 0" and sys: "sorted_wrt (\<lambda>a b. f a b \<le> 0) ys"
    using Cons.prems(2) by auto
  have cxy: "cmp x y = Inr (f x y)" using cmp x y by blast
  show ?case
  proof (cases "f x y \<le> 0")
    case True
    have "\<forall>z\<in>set ys. f x z \<le> 0"
    proof
      fix z assume z: "z \<in> set ys"
      then have "z \<in> S" using ys by blast
      moreover have "f y z \<le> 0" using sy z by blast
      ultimately show "f x z \<le> 0" using trans [OF x y _ True] by blast
    qed
    then have "sorted_wrt (\<lambda>a b. f a b \<le> 0) (x # y # ys)"
      using True sy sys by simp
    moreover have "insort_cmp cmp x (y # ys) = Inr (x # y # ys)"
      using True cxy by simp
    ultimately show ?thesis by simp
  next
    case False
    from Cons.IH [OF ys sys] obtain zs where zs: "insort_cmp cmp x ys = Inr zs"
      "mset zs = add_mset x (mset ys)" "sorted_wrt (\<lambda>a b. f a b \<le> 0) zs" by blast
    have yx: "f y x \<le> 0" using False total [OF x y] by simp
    have "set_mset (mset zs) = set_mset (add_mset x (mset ys))" using zs(2) by simp
    then have "set zs = insert x (set ys)" by simp
    then have "\<forall>z\<in>set zs. f y z \<le> 0" using yx sy by simp
    then have "sorted_wrt (\<lambda>a b. f a b \<le> 0) (y # zs)" using zs(3) by simp
    moreover have "insort_cmp cmp x (y # ys) = Inr (y # zs)"
      using False cxy zs(1) by simp
    moreover have "mset (y # zs) = add_mset x (mset (y # ys))" using zs(2) by simp
    ultimately show ?thesis by blast
  qed
qed

lemma sort_cmp_sorted:
  assumes cmp: "\<And>a b. a \<in> S \<Longrightarrow> b \<in> S \<Longrightarrow> cmp a b = Inr (f a b)"
    and total: "\<And>a b. a \<in> S \<Longrightarrow> b \<in> S \<Longrightarrow> 0 < f a b \<Longrightarrow> f b a \<le> 0"
    and trans: "\<And>a b c. a \<in> S \<Longrightarrow> b \<in> S \<Longrightarrow> c \<in> S \<Longrightarrow> f a b \<le> 0 \<Longrightarrow> f b c \<le> 0 \<Longrightarrow> f a c \<le> 0"
  shows "set xs \<subseteq> S \<Longrightarrow>
         \<exists>zs. sort_cmp cmp xs = Inr zs \<and> mset zs = mset xs
           \<and> sorted_wrt (\<lambda>a b. f a b \<le> 0) zs"
proof (induction xs)
  case Nil
  show ?case by simp
next
  case (Cons x xs)
  have x: "x \<in> S" and xs: "set xs \<subseteq> S" using Cons.prems by auto
  from Cons.IH [OF xs] obtain ys where ys: "sort_cmp cmp xs = Inr ys" "mset ys = mset xs"
    "sorted_wrt (\<lambda>a b. f a b \<le> 0) ys" by blast
  have "set_mset (mset ys) = set_mset (mset xs)" using ys(2) by simp
  then have sub: "set ys \<subseteq> S" using xs by simp
  have "\<exists>zs. insort_cmp cmp x ys = Inr zs \<and> mset zs = add_mset x (mset ys)
           \<and> sorted_wrt (\<lambda>a b. f a b \<le> 0) zs"
    by (rule insort_cmp_sorted [where S = S and f = f]) (fact cmp total trans x sub ys(3))+
  then obtain zs where zs: "insort_cmp cmp x ys = Inr zs" "mset zs = add_mset x (mset ys)"
    "sorted_wrt (\<lambda>a b. f a b \<le> 0) zs" by blast
  have "sort_cmp cmp (x # xs) = Inr zs" using ys(1) zs(1) by simp
  moreover have "mset zs = mset (x # xs)" using zs(2) ys(2) by simp
  ultimately show ?case using zs(3) by blast
qed

lemma indexOf_ge: "- 1 \<le> indexOf xs v"
  by (induction xs) (auto simp: Let_def)

lemma indexOf_notin: "v \<notin> set xs \<Longrightarrow> indexOf xs v = - 1"
  by (induction xs) (auto simp: Let_def)

lemma indexOf_first:
  "v \<notin> set before \<Longrightarrow> indexOf (before @ v # after) v = int (length before)"
  by (induction before) (auto simp: Let_def)

section \<open>The order on stable versions\<close>

lemma compareIdentifiers_NumId:
  "compareIdentifiers (NumId a) (NumId b) = (if a = b then 0 else if a < b then - 1 else 1)"
  by (simp add: compareIdentifiers_def)

lemma compareMain_le:
  "compareMain x y \<le> 0 \<longleftrightarrow>
     major x < major y \<or> (major x = major y \<and>
       (minor x < minor y \<or> (minor x = minor y \<and> patch x \<le> patch y)))"
  by (auto simp: compareMain_def compareIdentifiers_NumId Let_def)

lemma compareMain_total: "0 < compareMain x y \<Longrightarrow> compareMain y x \<le> 0"
proof -
  assume "0 < compareMain x y"
  then have "\<not> compareMain x y \<le> 0" by simp
  then show ?thesis unfolding compareMain_le by arith
qed

lemma compareMain_trans:
  "compareMain x y \<le> 0 \<Longrightarrow> compareMain y z \<le> 0 \<Longrightarrow> compareMain x z \<le> 0"
  unfolding compareMain_le by arith

lemma SemVer_compare_stable:
  "pre x = [] \<Longrightarrow> pre y = [] \<Longrightarrow> SemVer_compare x y = compareMain x y"
  by (simp add: SemVer_compare_def comparePre_def Let_def)

lemma is_stable_key_parse:
  "is_stable_key parse k \<Longrightarrow> \<exists>s. parse k = Some s \<and> pre s = []"
  by (auto simp: is_stable_key_def valid_def prerelease_def split: option.splits if_splits)

lemma compare_stable:
  assumes "is_stable_key parse a" and "is_stable_key parse b"
  shows "compare parse a b = Inr (compareMain (the (parse a)) (the (parse b)))"
proof -
  obtain x where x: "parse a = Some x" "pre x = []" using assms(1) is_stable_key_parse by blast
  obtain y where y: "parse b = Some y" "pre y = []" using assms(2) is_stable_key_parse by blast
  show ?thesis using x y by (simp add: compare_def SemVer_compare_stable)
qed

lemma semver_lte_stable:
  assumes "is_stable_key parse a" and "is_stable_key parse b"
  shows "semver_lte parse a b \<longleftrightarrow> compareMain (the (parse a)) (the (parse b)) \<le> 0"
proof -
  obtain x where x: "parse a = Some x" "pre x = []" using assms(1) is_stable_key_parse by blast
  obtain y where y: "parse b = Some y" "pre y = []" using assms(2) is_stable_key_parse by blast
  show ?thesis using x y by (simp add: semver_lte_def compareMain_le)
qed

lemma stableVersions_sorted:
  assumes "time pk = Some tm"
  shows "\<exists>L. stableVersions parse pk = Inr L
           \<and> mset L = mset (filter (is_stable_key parse) (map fst tm))
           \<and> sorted_wrt (semver_lte parse) L"
proof -
  let ?S = "{k. is_stable_key parse k}"
  let ?f = "\<lambda>a b. compareMain (the (parse a)) (the (parse b))"
  let ?xs = "filter (is_stable_key parse) (map fst tm)"
  have "\<exists>zs. sort_cmp (compare parse) ?xs = Inr zs \<and> mset zs = mset ?xs
           \<and> sorted_wrt (\<lambda>a b. ?f a b \<le> 0) zs"
  proof (rule sort_cmp_sorted [where S = ?S and f = ?f])
    show "\<And>a b. a \<in> ?S \<Longrightarrow> b \<in> ?S \<Longrightarrow> compare parse a b = Inr (?f a b)"
      by (simp add: compare_stable)
    show "\<And>a b. a \<in> ?S \<Longrightarrow> b \<in> ?S \<Longrightarrow> 0 < ?f a b \<Longrightarrow> ?f b a \<le> 0"
      by (rule compareMain_total)
    show "\<And>a b c. a \<in> ?S \<Longrightarrow> b \<in> ?S \<Longrightarrow> c \<in> ?S \<Longrightarrow> ?f a b \<le> 0 \<Longrightarrow> ?f b c \<le> 0 \<Longrightarrow> ?f a c \<le> 0"
      by (rule compareMain_trans)
    show "set ?xs \<subseteq> ?S" by auto
  qed
  then obtain L where L: "sort_cmp (compare parse) ?xs = Inr L" "mset L = mset ?xs"
    "sorted_wrt (\<lambda>a b. ?f a b \<le> 0) L" by blast
  have "set_mset (mset L) = set_mset (mset ?xs)" using L(2) by simp
  then have stab: "\<forall>k\<in>set L. is_stable_key parse k" by simp
  have "sorted_wrt (semver_lte parse) L"
    by (rule sorted_wrt_mono_rel [OF _ L(3)]) (simp add: semver_lte_stable stab)
  moreover have "stableVersions parse pk = Inr L"
    using assms L(1) by (simp add: stableVersions_def Object_keys_def)
  ultimately show ?thesis using L(2) by blast
qed

section \<open>Comparison-version selection: stable versions\<close>


lemma predecessor_Some:
  "(if indexOf L v \<le> 0 then None else Some (L ! nat (indexOf L v - 1))) = Some r
   \<longleftrightarrow> (\<exists>before after. L = before @ r # v # after \<and> v \<notin> set (before @ [r]))"
  (is "?lhs \<longleftrightarrow> ?rhs")
proof
  assume l: ?lhs
  then have pos: "0 < indexOf L v" and r: "r = L ! nat (indexOf L v - 1)"
    by (auto split: if_splits)
  have "v \<in> set L" using pos indexOf_notin [of v L] by force
  then obtain bs after where L: "L = bs @ v # after" "v \<notin> set bs"
    using split_list_first by fastforce
  have idx: "indexOf L v = int (length bs)" using L by (simp add: indexOf_first)
  then have "bs \<noteq> []" using pos by auto
  then obtain before x where bs: "bs = before @ [x]" by (metis rev_exhaust)
  have "L ! nat (indexOf L v - 1) = x" using idx bs L(1) by (simp add: nth_append)
  then have "L = before @ r # v # after \<and> v \<notin> set (before @ [r])" using r bs L by simp
  then show ?rhs by blast
next
  assume ?rhs
  then obtain before after where L: "L = before @ r # v # after" "v \<notin> set (before @ [r])"
    by blast
  have "L = (before @ [r]) @ v # after" using L(1) by simp
  then have idx: "indexOf L v = int (length (before @ [r]))"
    using L(2) indexOf_first by metis
  have "L ! length before = r" using L(1) by simp
  then show ?lhs using idx by simp
qed

lemma getComparisonVersion_stable_index:
  assumes "prerelease parse v = None" and "stableVersions parse pk = Inr L"
  shows "getComparisonVersion parse pk v =
           Inr (if indexOf L v \<le> 0 then None else Some (L ! nat (indexOf L v - 1)))"
  using assms by (simp add: getComparisonVersion_def Let_def)



section \<open>Comparison-version selection: prereleases\<close>

text \<open>
  Claim C2, as amended. For a prerelease resolved version the function returns the version
  of the \<^verbatim>\<open>latest\<close> dist-tag, and returns none exactly when that tag is absent, is the
  empty string, or equals the resolved version (\<^verbatim>\<open>!latest\<close> holds for the empty string
  too).
\<close>

theorem getComparisonVersion_prerelease_latest:
  assumes "prerelease parse v \<noteq> None"
  shows "getComparisonVersion parse pk v =
           Inr (if latest_tag pk = None \<or> latest_tag pk = Some [] \<or> latest_tag pk = Some v
                then None else latest_tag pk)"
  using assms by (auto simp: getComparisonVersion_def Let_def split: option.splits)

text \<open>The test "uses the latest dist-tag for a prerelease version".\<close>

theorem getComparisonVersion_prerelease_latest_witness:
  "prerelease semver_parse ''2.0.0-beta.1'' \<noteq> None
   \<and> getComparisonVersion semver_parse
        (createPackage [(''1.0.0'', ''2020-01-01''), (''2.0.0-beta.1'', ''2021-01-01'')]
           [(''latest'', ''1.0.0''), (''next'', ''2.0.0-beta.1'')]) ''2.0.0-beta.1''
      = Inr (Some ''1.0.0'')"
proof -
  let ?pkg = "createPackage [(''1.0.0'', ''2020-01-01''), (''2.0.0-beta.1'', ''2021-01-01'')]
           [(''latest'', ''1.0.0''), (''next'', ''2.0.0-beta.1'')]"
  have h: "prerelease semver_parse ''2.0.0-beta.1'' \<noteq> None" by code_simp
  have l: "latest_tag ?pkg = Some ''1.0.0''" by code_simp
  show ?thesis
    using h getComparisonVersion_prerelease_latest [OF h, of ?pkg] by (simp add: l)
qed

text \<open>
  Claim C2 as stated fails on a \<^verbatim>\<open>latest\<close> tag that is present and empty: the tag is not
  absent and differs from the resolved version, and the function returns none.
\<close>

theorem getComparisonVersion_empty_latest_counterexample:
  "prerelease semver_parse ''2.0.0-beta.1'' \<noteq> None
   \<and> \<not> (getComparisonVersion semver_parse
           \<lparr>dist_tags = Some [(''latest'', '''')], time = Some [(''2.0.0-beta.1'', ''2021-01-01'')]\<rparr>
           ''2.0.0-beta.1'' = Inr None
         \<longleftrightarrow> (latest_tag \<lparr>dist_tags = Some [(''latest'', '''')],
                  time = Some [(''2.0.0-beta.1'', ''2021-01-01'')]\<rparr> = None
              \<or> latest_tag \<lparr>dist_tags = Some [(''latest'', '''')],
                  time = Some [(''2.0.0-beta.1'', ''2021-01-01'')]\<rparr> = Some ''2.0.0-beta.1''))"
  by code_simp

section \<open>Semver order and order of publication\<close>

lemma published_before_irrefl: "\<not> published_before tm a a"
  by (simp add: published_before_def split: option.splits)

lemma published_before_asym: "published_before tm a b \<Longrightarrow> \<not> published_before tm b a"
  by (auto simp: published_before_def split: option.splits)

text \<open>
  Where the stable versions of the time map were published in the order of their version
  numbers, the semver predecessor that the function returns is the stable version
  published most recently before the resolved one.
\<close>

lemma previous_by_time_when_published_in_order:
  assumes "prerelease parse v = None" and "time pk = Some tm"
    and "published_in_semver_order parse tm"
    and "getComparisonVersion parse pk v = Inr (Some r)"
  shows "previous_by_time parse tm v r"
proof -
  let ?ks = "filter (is_stable_key parse) (map fst tm)"
  obtain L where L: "stableVersions parse pk = Inr L" "mset L = mset ?ks"
    "sorted_wrt (semver_lte parse) L"
    using stableVersions_sorted [OF assms(2)] by blast
  have "set_mset (mset L) = set_mset (mset ?ks)" using L(2) by simp
  then have setL: "set L = set ?ks" by simp
  have "(if indexOf L v \<le> 0 then None else Some (L ! nat (indexOf L v - 1))) = Some r"
    using getComparisonVersion_stable_index [OF assms(1) L(1)] assms(4) by simp
  then obtain before after where split: "L = before @ r # v # after" "v \<notin> set (before @ [r])"
    using predecessor_Some [of L v r] by blast
  have mono: "\<And>a b. a \<in> set L \<Longrightarrow> b \<in> set L \<Longrightarrow> a \<noteq> b \<Longrightarrow> semver_lte parse a b
                \<Longrightarrow> published_before tm a b"
    using assms(3) unfolding published_in_semver_order_def Let_def list_all_iff setL by blast
  have srt: "sorted_wrt (semver_lte parse) (before @ r # v # after)" using L(3) split(1) by simp
  have rv: "semver_lte parse r v" using srt by (simp add: sorted_wrt_append)
  have bef: "\<And>k. k \<in> set before \<Longrightarrow> semver_lte parse k r"
    using srt by (simp add: sorted_wrt_append)
  have aft: "\<And>k. k \<in> set after \<Longrightarrow> semver_lte parse v k"
    using srt by (simp add: sorted_wrt_append)
  have rL: "r \<in> set L" and vL: "v \<in> set L" using split(1) by simp_all
  have neq: "r \<noteq> v" using split(2) by auto
  have p1: "published_before tm r v" using mono [OF rL vL neq rv] .
  have p2: "\<And>k. k \<in> set L \<Longrightarrow> published_before tm k v \<Longrightarrow> \<not> published_before tm r k"
  proof -
    fix k assume k: "k \<in> set L" and kv: "published_before tm k v"
    have "k \<in> set before \<or> k = r \<or> k = v \<or> k \<in> set after" using k split(1) by auto
    then show "\<not> published_before tm r k"
    proof (elim disjE)
      assume kb: "k \<in> set before"
      show ?thesis
      proof (cases "k = r")
        case True
        then show ?thesis by (simp add: published_before_irrefl)
      next
        case False
        then have "published_before tm k r" using mono [OF k rL False bef [OF kb]] by simp
        then show ?thesis by (rule published_before_asym)
      qed
    next
      assume "k = r"
      then show ?thesis by (simp add: published_before_irrefl)
    next
      assume "k = v"
      then show ?thesis using kv by (simp add: published_before_irrefl)
    next
      assume ka: "k \<in> set after"
      show ?thesis
      proof (cases "k = v")
        case True
        then show ?thesis using kv by (simp add: published_before_irrefl)
      next
        case False
        then have "v \<noteq> k" by simp
        then have "published_before tm v k" using mono [OF vL k _ aft [OF ka]] by simp
        then show ?thesis using kv published_before_asym by blast
      qed
    qed
  qed
  show ?thesis
    unfolding previous_by_time_def Let_def list_all_iff
    using rL p1 p2 setL by auto
qed


section \<open>Comparison-version selection never throws on a packument with a time map\<close>

text \<open>
  Claim C8, as amended. Whatever the version string, the keys of the time map and the
  dist-tags (present or not), the function returns a version or none, provided the
  packument has a time map, as its type requires, or the resolved version is a prerelease
  (that branch does not read the time map).
\<close>

theorem getComparisonVersion_total:
  assumes "time pk \<noteq> None \<or> prerelease parse v \<noteq> None"
  shows "\<exists>res. getComparisonVersion parse pk v = Inr res"
proof (cases "prerelease parse v = None")
  case False
  then show ?thesis
    by (simp add: getComparisonVersion_def Let_def split: option.splits)
next
  case True
  then obtain tm where tm: "time pk = Some tm" using assms by auto
  obtain L where L: "stableVersions parse pk = Inr L"
    using stableVersions_sorted [OF tm] by blast
  show ?thesis using getComparisonVersion_stable_index [OF True L] by blast
qed

text \<open>
  A packument without dist-tags whose time map has keys that are not versions, asked
  about a string that is not a version.
\<close>

theorem getComparisonVersion_total_witness:
  "time \<lparr>dist_tags = None, time = Some [(''created'', ''yesterday''), (''1.0'', ''x''),
        (''not a version'', ''2020-01-01''), (''1.0.0'', ''2020-01-01'')]\<rparr>
     = Some [(''created'', ''yesterday''), (''1.0'', ''x''),
        (''not a version'', ''2020-01-01''), (''1.0.0'', ''2020-01-01'')]
   \<and> (\<exists>res. getComparisonVersion semver_parse
         \<lparr>dist_tags = None, time = Some [(''created'', ''yesterday''), (''1.0'', ''x''),
        (''not a version'', ''2020-01-01''), (''1.0.0'', ''2020-01-01'')]\<rparr> ''1.0.0.0'' = Inr res)"
proof -
  let ?pkg = "\<lparr>dist_tags = None, time = Some [(''created'', ''yesterday''), (''1.0'', ''x''),
        (''not a version'', ''2020-01-01''), (''1.0.0'', ''2020-01-01'')]\<rparr>"
  have t: "time ?pkg = Some [(''created'', ''yesterday''), (''1.0'', ''x''),
        (''not a version'', ''2020-01-01''), (''1.0.0'', ''2020-01-01'')]" by simp
  have h: "time ?pkg \<noteq> None \<or> prerelease semver_parse ''1.0.0.0'' \<noteq> None" by simp
  from getComparisonVersion_total [OF h] t show ?thesis by blast
qed

text \<open>
  Claim C8 as stated fails on a packument without a time map and a stable resolved
  version: \<^verbatim>\<open>Object.keys(undefined)\<close> throws a TypeError.
\<close>

theorem getComparisonVersion_missing_time_counterexample:
  "getComparisonVersion semver_parse
     \<lparr>dist_tags = Some [(''latest'', ''1.0.0'')], time = None\<rparr> ''1.0.0'' = Inl TypeError"
  by code_simp

section \<open>calculateInstallSize\<close>








section \<open>The size diff\<close>

lemma diff_value_Some:
  assumes "diff_value name resolved cv current previous = Some d"
  shows "\<exists>c p v. current = Some c \<and> previous = Some p \<and> cv = Some v \<and> v \<noteq> []
           \<and> package c = name \<and> resolved = Some (version c)
           \<and> package p = name \<and> version p = v
           \<and> (SIZE_INCREASE_THRESHOLD < sizeRatio_of c p \<or> DEP_INCREASE_THRESHOLD < depDiff_of c p)
           \<and> d = \<lparr>comparisonVersion = v,
                   sizeRatio = sizeRatio_of c p,
                   sizeIncrease = int (totalSize c) - int (totalSize p),
                   currentSize = totalSize c,
                   previousSize = totalSize p,
                   depDiff = depDiff_of c p,
                   currentDeps = dependencyCount c,
                   previousDeps = dependencyCount p,
                   sizeThresholdExceeded = (SIZE_INCREASE_THRESHOLD < sizeRatio_of c p),
                   depThresholdExceeded = (DEP_INCREASE_THRESHOLD < depDiff_of c p)\<rparr>"
proof -
  obtain c where c: "current = Some c" using assms by (cases current) (simp_all add: diff_value_def)
  obtain p where p: "previous = Some p"
    using assms c by (cases previous) (simp_all add: diff_value_def)
  obtain v where v: "cv = Some v" using assms c p by (cases cv) (simp_all add: diff_value_def)
  show ?thesis
    using assms unfolding c p v diff_value_def Let_def
    by (auto split: if_splits)
qed

text \<open>
  Claim C4. For every current and previous install-size result, the size ratio is
  \<open>(current.totalSize - previous.totalSize) / previous.totalSize\<close> when the previous total
  size is not zero and zero when it is zero (the guard \<^verbatim>\<open>previous.totalSize > 0\<close> on a byte
  count), the dependency difference is
  \<open>current.dependencyCount - previous.dependencyCount\<close>, and a diff that is produced
  carries these two numbers.
\<close>

theorem diff_sizeRatio_depDiff:
  "sizeRatio_of c p =
     (if totalSize p \<noteq> 0 then (real (totalSize c) - real (totalSize p)) / real (totalSize p)
      else 0)
   \<and> depDiff_of c p = int (dependencyCount c) - int (dependencyCount p)
   \<and> (diff_value name resolved cv (Some c) (Some p) = Some d
        \<longrightarrow> sizeRatio d = sizeRatio_of c p \<and> depDiff d = depDiff_of c p)"
proof (intro conjI impI)
  show "sizeRatio_of c p =
     (if totalSize p \<noteq> 0 then (real (totalSize c) - real (totalSize p)) / real (totalSize p)
      else 0)"
    by (simp add: sizeRatio_of_def)
  show "depDiff_of c p = int (dependencyCount c) - int (dependencyCount p)"
    by (simp add: depDiff_of_def)
next
  assume "diff_value name resolved cv (Some c) (Some p) = Some d"
  from diff_value_Some [OF this] show "sizeRatio d = sizeRatio_of c p" by auto
next
  assume "diff_value name resolved cv (Some c) (Some p) = Some d"
  from diff_value_Some [OF this] show "depDiff d = depDiff_of c p" by auto
qed

text \<open>The test "returns correct diff values".\<close>

lemma diff_value_pkg_both:
  "diff_value ''pkg-both'' (Some ''1.1.0'') (Some ''1.0.0'')
     (Some (createInstallSize ''pkg-both'' ''1.1.0'' 10000 15))
     (Some (createInstallSize ''pkg-both'' ''1.0.0'' 5000 5))
   = Some \<lparr>comparisonVersion = ''1.0.0'', sizeRatio = 1, sizeIncrease = 5000,
            currentSize = 10000, previousSize = 5000, depDiff = 10, currentDeps = 15,
            previousDeps = 5, sizeThresholdExceeded = True, depThresholdExceeded = True\<rparr>"
  by (simp add: diff_value_def createInstallSize_def sizeRatio_of_def depDiff_of_def
      SIZE_INCREASE_THRESHOLD_def DEP_INCREASE_THRESHOLD_def)

theorem diff_sizeRatio_depDiff_witness:
  "diff_value ''pkg-both'' (Some ''1.1.0'') (Some ''1.0.0'')
     (Some (createInstallSize ''pkg-both'' ''1.1.0'' 10000 15))
     (Some (createInstallSize ''pkg-both'' ''1.0.0'' 5000 5))
   = Some \<lparr>comparisonVersion = ''1.0.0'', sizeRatio = 1, sizeIncrease = 5000,
            currentSize = 10000, previousSize = 5000, depDiff = 10, currentDeps = 15,
            previousDeps = 5, sizeThresholdExceeded = True, depThresholdExceeded = True\<rparr>
   \<and> sizeRatio_of (createInstallSize ''pkg-both'' ''1.1.0'' 10000 15)
        (createInstallSize ''pkg-both'' ''1.0.0'' 5000 5) = 1
   \<and> depDiff_of (createInstallSize ''pkg-both'' ''1.1.0'' 10000 15)
        (createInstallSize ''pkg-both'' ''1.0.0'' 5000 5) = 10"
  using diff_sizeRatio_depDiff [of "createInstallSize ''pkg-both'' ''1.1.0'' 10000 15"
      "createInstallSize ''pkg-both'' ''1.0.0'' 5000 5" "''pkg-both''" "Some ''1.1.0''"
      "Some ''1.0.0''"
      "\<lparr>comparisonVersion = ''1.0.0'', sizeRatio = 1, sizeIncrease = 5000,
            currentSize = 10000, previousSize = 5000, depDiff = 10, currentDeps = 15,
            previousDeps = 5, sizeThresholdExceeded = True, depThresholdExceeded = True\<rparr>"]
    diff_value_pkg_both
  by simp

text \<open>
  Claim C5. In every diff that is produced the size flag holds iff the size ratio is above
  0.25 and the dependency flag holds iff the dependency difference is above 5, and one of
  them holds; when neither threshold is exceeded the diff is none. With total sizes 7000
  against 5000 the ratio is 0.4 and the size flag is set; with 5100 against 5000 and 4
  dependencies against 3 the diff is none.
\<close>

theorem threshold_gate:
  "(diff_value name resolved cv (Some c) (Some p) = Some d
      \<longrightarrow> (sizeThresholdExceeded d \<longleftrightarrow> sizeRatio d > 0.25)
        \<and> (depThresholdExceeded d \<longleftrightarrow> depDiff d > 5)
        \<and> (sizeThresholdExceeded d \<or> depThresholdExceeded d))
   \<and> (\<not> sizeRatio_of c p > 0.25 \<and> \<not> depDiff_of c p > 5
        \<longrightarrow> diff_value name resolved cv (Some c) (Some p) = None)
   \<and> sizeRatio_of (createInstallSize n ''1.1.0'' 7000 4) (createInstallSize n ''1.0.0'' 5000 3) = 0.4
   \<and> map_option (\<lambda>d. (sizeRatio d, sizeThresholdExceeded d))
        (diff_value n (Some ''1.1.0'') (Some ''1.0.0'')
           (Some (createInstallSize n ''1.1.0'' 7000 4))
           (Some (createInstallSize n ''1.0.0'' 5000 3))) = Some (0.4, True)
   \<and> diff_value n (Some ''1.1.0'') (Some ''1.0.0'')
        (Some (createInstallSize n ''1.1.0'' 5100 4))
        (Some (createInstallSize n ''1.0.0'' 5000 3)) = None"
proof (intro conjI impI)
  assume a: "diff_value name resolved cv (Some c) (Some p) = Some d"
  from diff_value_Some [OF a]
  show "sizeThresholdExceeded d \<longleftrightarrow> sizeRatio d > 0.25"
    by (auto simp: SIZE_INCREASE_THRESHOLD_def)
  from diff_value_Some [OF a]
  show "depThresholdExceeded d \<longleftrightarrow> depDiff d > 5"
    by (auto simp: DEP_INCREASE_THRESHOLD_def)
  from diff_value_Some [OF a]
  show "sizeThresholdExceeded d \<or> depThresholdExceeded d" by auto
next
  assume "\<not> sizeRatio_of c p > 0.25 \<and> \<not> depDiff_of c p > 5"
  then show "diff_value name resolved cv (Some c) (Some p) = None"
    by (simp add: diff_value_def Let_def SIZE_INCREASE_THRESHOLD_def DEP_INCREASE_THRESHOLD_def
        split: option.splits)
next
  show "sizeRatio_of (createInstallSize n ''1.1.0'' 7000 4) (createInstallSize n ''1.0.0'' 5000 3) = 0.4"
    by (simp add: sizeRatio_of_def createInstallSize_def)
  show "map_option (\<lambda>d. (sizeRatio d, sizeThresholdExceeded d))
        (diff_value n (Some ''1.1.0'') (Some ''1.0.0'')
           (Some (createInstallSize n ''1.1.0'' 7000 4))
           (Some (createInstallSize n ''1.0.0'' 5000 3))) = Some (0.4, True)"
    by (simp add: diff_value_def createInstallSize_def sizeRatio_of_def depDiff_of_def
      SIZE_INCREASE_THRESHOLD_def DEP_INCREASE_THRESHOLD_def)
  show "diff_value n (Some ''1.1.0'') (Some ''1.0.0'')
        (Some (createInstallSize n ''1.1.0'' 5100 4))
        (Some (createInstallSize n ''1.0.0'' 5000 3)) = None"
    by (simp add: diff_value_def createInstallSize_def sizeRatio_of_def depDiff_of_def
      SIZE_INCREASE_THRESHOLD_def DEP_INCREASE_THRESHOLD_def)
qed

text \<open>The test "sets sizeThresholdExceeded when size increased by more than 25%".\<close>

lemma diff_value_pkg_size_only:
  "diff_value ''pkg-size-only'' (Some ''1.1.0'') (Some ''1.0.0'')
     (Some (createInstallSize ''pkg-size-only'' ''1.1.0'' 7000 4))
     (Some (createInstallSize ''pkg-size-only'' ''1.0.0'' 5000 3))
   = Some \<lparr>comparisonVersion = ''1.0.0'', sizeRatio = 0.4, sizeIncrease = 2000,
            currentSize = 7000, previousSize = 5000, depDiff = 1, currentDeps = 4,
            previousDeps = 3, sizeThresholdExceeded = True, depThresholdExceeded = False\<rparr>"
  by (simp add: diff_value_def createInstallSize_def sizeRatio_of_def depDiff_of_def
      SIZE_INCREASE_THRESHOLD_def DEP_INCREASE_THRESHOLD_def)

text \<open>
  The diff of that test is produced with the size flag set; the inputs of the test
  "returns null when both thresholds are not met" exceed neither threshold and give none.
\<close>

theorem threshold_gate_witness:
  "diff_value ''pkg-size-only'' (Some ''1.1.0'') (Some ''1.0.0'')
     (Some (createInstallSize ''pkg-size-only'' ''1.1.0'' 7000 4))
     (Some (createInstallSize ''pkg-size-only'' ''1.0.0'' 5000 3))
   = Some \<lparr>comparisonVersion = ''1.0.0'', sizeRatio = 0.4, sizeIncrease = 2000,
            currentSize = 7000, previousSize = 5000, depDiff = 1, currentDeps = 4,
            previousDeps = 3, sizeThresholdExceeded = True, depThresholdExceeded = False\<rparr>
   \<and> (\<not> sizeRatio_of (createInstallSize ''pkg-no-threshold'' ''1.1.0'' 5100 4)
            (createInstallSize ''pkg-no-threshold'' ''1.0.0'' 5000 3) > 0.25
      \<and> \<not> depDiff_of (createInstallSize ''pkg-no-threshold'' ''1.1.0'' 5100 4)
            (createInstallSize ''pkg-no-threshold'' ''1.0.0'' 5000 3) > 5)
   \<and> diff_value ''pkg-no-threshold'' (Some ''1.1.0'') (Some ''1.0.0'')
        (Some (createInstallSize ''pkg-no-threshold'' ''1.1.0'' 5100 4))
        (Some (createInstallSize ''pkg-no-threshold'' ''1.0.0'' 5000 3)) = None"
proof -
  have h: "\<not> sizeRatio_of (createInstallSize ''pkg-no-threshold'' ''1.1.0'' 5100 4)
            (createInstallSize ''pkg-no-threshold'' ''1.0.0'' 5000 3) > 0.25
      \<and> \<not> depDiff_of (createInstallSize ''pkg-no-threshold'' ''1.1.0'' 5100 4)
            (createInstallSize ''pkg-no-threshold'' ''1.0.0'' 5000 3) > 5"
    by (simp add: sizeRatio_of_def depDiff_of_def createInstallSize_def)
  have "diff_value ''pkg-no-threshold'' (Some ''1.1.0'') (Some ''1.0.0'')
        (Some (createInstallSize ''pkg-no-threshold'' ''1.1.0'' 5100 4))
        (Some (createInstallSize ''pkg-no-threshold'' ''1.0.0'' 5000 3)) = None"
    using h threshold_gate [of "''pkg-no-threshold''" "Some ''1.1.0''" "Some ''1.0.0''"
        "createInstallSize ''pkg-no-threshold'' ''1.1.0'' 5100 4"
        "createInstallSize ''pkg-no-threshold'' ''1.0.0'' 5000 3"]
    by blast
  with h diff_value_pkg_size_only show ?thesis by blast
qed

text \<open>
  Claim C6. When the computed diff is a diff, the current and the comparison install-size
  result are both present, both carry the requested package name, the current one carries
  the resolved version and the comparison one the comparison version. When either result
  is absent, or carries another name or version, the diff is none.
\<close>

theorem diff_identity:
  "(diff parse i comparisonInstallSize = Inr (Some d)
      \<longrightarrow> (\<exists>c p v. currentInstallSize i = Some c \<and> comparisonInstallSize = Some p
             \<and> comparisonVersion_computed parse i = Inr (Some v)
             \<and> package c = packageName i \<and> resolvedVersion i = Some (version c)
             \<and> package p = packageName i \<and> version p = v))
   \<and> (current = None \<or> previous = None
        \<or> (\<exists>c. current = Some c \<and> (package c \<noteq> name \<or> Some (version c) \<noteq> resolved))
        \<or> (\<exists>p. previous = Some p \<and> (package p \<noteq> name \<or> Some (version p) \<noteq> cv))
      \<longrightarrow> diff_value name resolved cv current previous = None)"
proof (intro conjI impI)
  assume a: "diff parse i comparisonInstallSize = Inr (Some d)"
  then obtain cv' where cv': "comparisonVersion_computed parse i = Inr cv'"
    "diff_value (packageName i) (resolvedVersion i) cv' (currentInstallSize i)
       comparisonInstallSize = Some d"
    by (auto simp: diff_def split: sum.splits)
  from diff_value_Some [OF cv'(2)] cv'(1)
  show "\<exists>c p v. currentInstallSize i = Some c \<and> comparisonInstallSize = Some p
             \<and> comparisonVersion_computed parse i = Inr (Some v)
             \<and> package c = packageName i \<and> resolvedVersion i = Some (version c)
             \<and> package p = packageName i \<and> version p = v"
    by auto
next
  assume b: "current = None \<or> previous = None
        \<or> (\<exists>c. current = Some c \<and> (package c \<noteq> name \<or> Some (version c) \<noteq> resolved))
        \<or> (\<exists>p. previous = Some p \<and> (package p \<noteq> name \<or> Some (version p) \<noteq> cv))"
  show "diff_value name resolved cv current previous = None"
  proof (rule ccontr)
    assume "diff_value name resolved cv current previous \<noteq> None"
    then obtain d' where "diff_value name resolved cv current previous = Some d'" by auto
    from diff_value_Some [OF this] b show False by auto
  qed
qed

text \<open>
  The diff of the size-only test satisfies the identity checks; with the comparison
  result still absent the diff is none.
\<close>

theorem diff_identity_witness:
  "diff semver_parse
     \<lparr>packageName = ''pkg-size-only'', resolvedVersion = Some ''1.1.0'',
       pkg = Some (createPackage [(''1.0.0'', ''2020-01-01''), (''1.1.0'', ''2021-01-01'')] []),
       currentInstallSize = Some (createInstallSize ''pkg-size-only'' ''1.1.0'' 7000 4)\<rparr>
     (Some (createInstallSize ''pkg-size-only'' ''1.0.0'' 5000 3))
   = Inr (Some \<lparr>comparisonVersion = ''1.0.0'', sizeRatio = 0.4, sizeIncrease = 2000,
            currentSize = 7000, previousSize = 5000, depDiff = 1, currentDeps = 4,
            previousDeps = 3, sizeThresholdExceeded = True, depThresholdExceeded = False\<rparr>)
   \<and> (\<exists>c p v. Some (createInstallSize ''pkg-size-only'' ''1.1.0'' 7000 4) = Some c
          \<and> Some (createInstallSize ''pkg-size-only'' ''1.0.0'' 5000 3) = Some p
          \<and> package c = ''pkg-size-only'' \<and> Some ''1.1.0'' = Some (version c)
          \<and> package p = ''pkg-size-only'' \<and> version p = v)
   \<and> diff_value ''pkg-size-only'' (Some ''1.1.0'') (Some ''1.0.0'')
         (Some (createInstallSize ''pkg-size-only'' ''1.1.0'' 7000 4)) None = None"
proof -
  let ?i = "\<lparr>packageName = ''pkg-size-only'', resolvedVersion = Some ''1.1.0'',
       pkg = Some (createPackage [(''1.0.0'', ''2020-01-01''), (''1.1.0'', ''2021-01-01'')] []),
       currentInstallSize = Some (createInstallSize ''pkg-size-only'' ''1.1.0'' 7000 4)\<rparr>"
  let ?p = "createInstallSize ''pkg-size-only'' ''1.0.0'' 5000 3"
  let ?d = "\<lparr>comparisonVersion = ''1.0.0'', sizeRatio = 0.4, sizeIncrease = 2000,
            currentSize = 7000, previousSize = 5000, depDiff = 1, currentDeps = 4,
            previousDeps = 3, sizeThresholdExceeded = True, depThresholdExceeded = False\<rparr>"
  have cv: "comparisonVersion_computed semver_parse ?i = Inr (Some ''1.0.0'')" by code_simp
  have d: "diff semver_parse ?i (Some ?p) = Inr (Some ?d)"
    using diff_value_pkg_size_only by (simp add: diff_def cv)
  have absent: "Some (createInstallSize ''pkg-size-only'' ''1.1.0'' 7000 4) = None
        \<or> (None :: InstallSizeResult option) = None
        \<or> (\<exists>c. Some (createInstallSize ''pkg-size-only'' ''1.1.0'' 7000 4) = Some c
               \<and> (package c \<noteq> ''pkg-size-only'' \<or> Some (version c) \<noteq> Some ''1.1.0''))
        \<or> (\<exists>p. (None :: InstallSizeResult option) = Some p
               \<and> (package p \<noteq> ''pkg-size-only'' \<or> Some (version p) \<noteq> Some ''1.0.0''))"
    by simp
  note inst = diff_identity [where parse = semver_parse and i = ?i
      and comparisonInstallSize = "Some ?p" and d = ?d
      and current = "Some (createInstallSize ''pkg-size-only'' ''1.1.0'' 7000 4)"
      and previous = None and name = "''pkg-size-only''" and resolved = "Some ''1.1.0''"
      and cv = "Some ''1.0.0''"]
  from inst d have id: "\<exists>c p v. currentInstallSize ?i = Some c \<and> Some ?p = Some p
             \<and> comparisonVersion_computed semver_parse ?i = Inr (Some v)
             \<and> package c = packageName ?i \<and> resolvedVersion ?i = Some (version c)
             \<and> package p = packageName ?i \<and> version p = v"
    by blast
  from inst absent have none: "diff_value ''pkg-size-only'' (Some ''1.1.0'') (Some ''1.0.0'')
         (Some (createInstallSize ''pkg-size-only'' ''1.1.0'' 7000 4)) None = None"
    by blast
  from id have id': "\<exists>c p v. Some (createInstallSize ''pkg-size-only'' ''1.1.0'' 7000 4) = Some c
          \<and> Some (createInstallSize ''pkg-size-only'' ''1.0.0'' 5000 3) = Some p
          \<and> package c = ''pkg-size-only'' \<and> Some ''1.1.0'' = Some (version c)
          \<and> package p = ''pkg-size-only'' \<and> version p = v"
    by simp
  from d id' none show ?thesis by blast
qed

section \<open>The fetch of the comparison size\<close>

text \<open>With no comparison version the composable's own watcher issues nothing.\<close>

lemma watch_requests_no_comparison_version: "watch_requests seen (Inr None, name) = []"
  by (simp add: watch_requests_def watch_callback_def)

text \<open>
  With no comparison version the URL is empty. No request is issued at setup or when the
  URL was empty before; when the URL was that of a comparison version, the lazy fetch
  requests the empty URL.
\<close>

lemma step_requests_no_comparison_version:
  assumes "comparisonVersion_computed parse i = Inr None"
  shows "step_requests parse st i =
           (if seen_url st = None \<or> seen_url st = Some (Inr []) then [] else [[]])"
  using assms
  by (auto simp: step_requests_def request_url_def fetch_url_def lazy_fetch_requests_def
      watch_requests_no_comparison_version split: option.splits)

text \<open>The test "does not fetch when there is no comparison version".\<close>

lemma no_fetch_at_setup:
  assumes "comparisonVersion_computed parse i = Inr None"
  shows "fetches_issued client parse [i] = []"
  using assms
  by (simp add: fetches_issued_def step_requests_no_comparison_version at_setup_def)

text \<open>The test "calls the correct API endpoint for the comparison version".\<close>

lemma fetch_at_setup:
  "fetches_issued True semver_parse
     [\<lparr>packageName = ''my-pkg'', resolvedVersion = Some ''1.1.0'',
       pkg = Some (createPackage [(''1.0.0'', ''2020-01-01''), (''1.1.0'', ''2021-01-01'')] []),
       currentInstallSize = Some (createInstallSize ''my-pkg'' ''1.1.0'' 7000 3)\<rparr>]
   = [''/api/registry/install-size/my-pkg/v/1.0.0'']"
  by code_simp

text \<open>
  Claim C7. The watcher fetches only under \<^verbatim>\<open>if (v)\<close> and the lazy fetch does not fetch at
  setup, so nothing is requested while there is no comparison version from the start.
  But the lazy fetch follows its URL: when the resolved version goes from 1.1.0 to 1.0.0,
  the first release, the comparison version becomes none, the URL becomes empty, and the
  empty URL is requested.
\<close>

theorem refetch_of_empty_url:
  "comparisonVersion_computed semver_parse
      \<lparr>packageName = ''my-pkg'', resolvedVersion = Some ''1.0.0'',
        pkg = Some (createPackage [(''1.0.0'', ''2020-01-01''), (''1.1.0'', ''2021-01-01'')] []),
        currentInstallSize = None\<rparr> = Inr None
   \<and> fetches_issued True semver_parse
        [\<lparr>packageName = ''my-pkg'', resolvedVersion = Some ''1.1.0'',
          pkg = Some (createPackage [(''1.0.0'', ''2020-01-01''), (''1.1.0'', ''2021-01-01'')] []),
          currentInstallSize = None\<rparr>,
         \<lparr>packageName = ''my-pkg'', resolvedVersion = Some ''1.0.0'',
          pkg = Some (createPackage [(''1.0.0'', ''2020-01-01''), (''1.1.0'', ''2021-01-01'')] []),
          currentInstallSize = None\<rparr>]
      = [''/api/registry/install-size/my-pkg/v/1.0.0'', []]"
  by code_simp

end
